theory Spec2Isabelle
  imports Complex_Main
begin

section \<open>Data model\<close>

text \<open>
  A control point is a numpy array of two coordinates, \<open>np.array([x, y])\<close>. The
  coordinate type is a parameter: the evaluators only use \<open>1\<close>, \<open>-\<close>, \<open>*\<close> and
  \<open>+\<close> on it, so a statement about them at the sort \<open>{one,minus,times,plus}\<close> holds
  for whatever arithmetic interprets the four operations. Statements that need laws
  of arithmetic read numpy's float64 coordinates as real numbers; the sampler, whose
  parameter \<open>i / (num_points - 1)\<close> is a quotient, and the handlers, whose offsets
  are the constants \<open>0.5\<close>, \<open>1.0\<close>, \<open>2.0\<close> and \<open>3.0\<close>, are modelled on the reals.
\<close>

type_synonym 'a point = "'a \<times> 'a"

text \<open>\<open>c * p\<close> for a scalar \<open>c\<close> and an array \<open>p\<close>: numpy multiplies each coordinate.\<close>

definition scale :: "'a::times \<Rightarrow> 'a point \<Rightarrow> 'a point" where
  "scale c p = (c * fst p, c * snd p)"

text \<open>\<open>p + q\<close> for two arrays: numpy adds coordinate by coordinate.\<close>

definition add_pt :: "'a::plus point \<Rightarrow> 'a point \<Rightarrow> 'a point" where
  "add_pt p q = (fst p + fst q, snd p + snd q)"

text \<open>\<open>p / c\<close> for an array \<open>p\<close> and a scalar \<open>c\<close>.\<close>

definition div_pt :: "'a::inverse point \<Rightarrow> 'a \<Rightarrow> 'a point" where
  "div_pt p c = (fst p / c, snd p / c)"

text \<open>The exceptions the modelled functions can raise.\<close>

datatype error = IndexError | ZeroDivisionError

definition bind_err :: "error + 'a \<Rightarrow> ('a \<Rightarrow> error + 'b) \<Rightarrow> error + 'b" where
  "bind_err r f = (case r of Inl e \<Rightarrow> Inl e | Inr v \<Rightarrow> f v)"

text \<open>
  \<open>xs[i]\<close> on a Python list: a negative index counts from the end, and an index
  outside the list raises IndexError.
\<close>

definition py_index :: "'a list \<Rightarrow> int \<Rightarrow> error + 'a" where
  "py_index xs i =
     (if 0 \<le> i \<and> i < int (length xs) then Inr (xs ! nat i)
      else if i < 0 \<and> 0 \<le> i + int (length xs) then Inr (xs ! nat (i + int (length xs)))
      else Inl IndexError)"

section \<open>Evaluator\<close>

text \<open>
  The inner loop of \<open>de_casteljau_general\<close> (nb.py 46-50, tc.py 11-13, lcexp.py
  11-13): for \<open>i\<close> in \<open>range(len(points) - 1)\<close> it appends
  \<open>(1 - t) * points[i] + t * points[i + 1]\<close>. Both indices are inside the list for
  every \<open>i\<close> of the range.
\<close>

definition next_level_points :: "'a::{one,minus,times,plus} \<Rightarrow> 'a point list \<Rightarrow> 'a point list" where
  "next_level_points t points =
     map (\<lambda>i. add_pt (scale (1 - t) (points ! i)) (scale t (points ! (i + 1))))
       [0..<length points - 1]"

text \<open>
  The outer loop, \<open>for level in range(num_levels)\<close>: each round replaces \<open>points\<close>
  by the next level. The first argument counts the rounds that remain.
\<close>

fun levels :: "nat \<Rightarrow> 'a::{one,minus,times,plus} \<Rightarrow> 'a point list \<Rightarrow> 'a point list" where
  "levels 0 t points = points"
| "levels (Suc k) t points = levels k t (next_level_points t points)"

text \<open>
  \<open>de_casteljau_general(control_points, t)\<close>. \<open>num_levels = len(points) - 1\<close> is
  \<open>-1\<close> for the empty list, and \<open>range\<close> of a negative number is empty. The
  function ends with \<open>return points[0]\<close>, which raises IndexError on an empty list.
\<close>

definition de_casteljau_general :: "'a::{one,minus,times,plus} point list \<Rightarrow> 'a \<Rightarrow> error + 'a point" where
  "de_casteljau_general control_points t =
     (let points = control_points;
          num_levels = int (length points) - 1
      in py_index (levels (nat num_levels) t points) 0)"

text \<open>
  The cubic evaluator: \<open>de_casteljau(p0, p1, p2, p3, t)\<close> of cb.py and pb.py and
  \<open>de_casteljau_cubic\<close> of tc.py have the same body, three unrolled levels. It
  indexes nothing and raises nothing.
\<close>

definition de_casteljau_cubic ::
  "'a::{one,minus,times,plus} point \<Rightarrow> 'a point \<Rightarrow> 'a point \<Rightarrow> 'a point \<Rightarrow> 'a \<Rightarrow> 'a point" where
  "de_casteljau_cubic p0 p1 p2 p3 t =
     (let q0 = add_pt (scale (1 - t) p0) (scale t p1);
          q1 = add_pt (scale (1 - t) p1) (scale t p2);
          q2 = add_pt (scale (1 - t) p2) (scale t p3);
          r0 = add_pt (scale (1 - t) q0) (scale t q1);
          r1 = add_pt (scale (1 - t) q1) (scale t q2);
          b = add_pt (scale (1 - t) r0) (scale t r1)
      in b)"

definition de_casteljau ::
  "'a::{one,minus,times,plus} point \<Rightarrow> 'a point \<Rightarrow> 'a point \<Rightarrow> 'a point \<Rightarrow> 'a \<Rightarrow> 'a point" where
  "de_casteljau p0 p1 p2 p3 t =
     (let q0 = add_pt (scale (1 - t) p0) (scale t p1);
          q1 = add_pt (scale (1 - t) p1) (scale t p2);
          q2 = add_pt (scale (1 - t) p2) (scale t p3);
          r0 = add_pt (scale (1 - t) q0) (scale t q1);
          r1 = add_pt (scale (1 - t) q1) (scale t q2);
          b = add_pt (scale (1 - t) r0) (scale t r1)
      in b)"

section \<open>Sampler\<close>

text \<open>
  \<open>generate_bezier_curve(control_points, num_points)\<close> of nb.py and lcexp.py, and
  \<open>generate_higher_order_bezier\<close> of tc.py, which has the same body. The loop
  \<open>for i in range(num_points)\<close> runs over the list of its indices; \<open>curve_points\<close> is
  the accumulator. \<open>i / (num_points - 1)\<close> divides two Python integers: it raises
  ZeroDivisionError when \<open>num_points\<close> is 1, and is the quotient as a float otherwise.
  An exception of the evaluator leaves the loop. The final \<open>np.array(curve_points)\<close>
  keeps the points and their order.
\<close>

fun curve_loop :: "real point list \<Rightarrow> int \<Rightarrow> nat list \<Rightarrow> real point list \<Rightarrow> error + real point list" where
  "curve_loop control_points num_points [] curve_points = Inr curve_points"
| "curve_loop control_points num_points (i # rest) curve_points =
     (if num_points - 1 = 0 then Inl ZeroDivisionError
      else bind_err (de_casteljau_general control_points (real i / real_of_int (num_points - 1)))
             (\<lambda>point. curve_loop control_points num_points rest (curve_points @ [point])))"

definition generate_bezier_curve :: "real point list \<Rightarrow> int \<Rightarrow> error + real point list" where
  "generate_bezier_curve control_points num_points =
     curve_loop control_points num_points [0..<nat num_points] []"

definition generate_higher_order_bezier :: "real point list \<Rightarrow> int \<Rightarrow> error + real point list" where
  "generate_higher_order_bezier control_points num_points =
     curve_loop control_points num_points [0..<nat num_points] []"

text \<open>
  \<open>generate_piecewise_bezier(control_points, num_points)\<close> of tc.py. The inner loop
  samples one segment with the cubic evaluator; the outer loop runs over
  \<open>range(num_segments)\<close>, reads the four points of the segment by index and extends
  \<open>all_curve_points\<close> by the segment's samples. \<open>//\<close> is floor division, as
  \<open>div\<close> on \<open>int\<close> is: \<open>(0 - 1) // 3 = -1\<close>.
\<close>

fun segment_loop ::
  "real point \<Rightarrow> real point \<Rightarrow> real point \<Rightarrow> real point \<Rightarrow> int \<Rightarrow> nat list \<Rightarrow> real point list
     \<Rightarrow> error + real point list" where
  "segment_loop p0 p1 p2 p3 num_points [] segment_points = Inr segment_points"
| "segment_loop p0 p1 p2 p3 num_points (i # rest) segment_points =
     (if num_points - 1 = 0 then Inl ZeroDivisionError
      else segment_loop p0 p1 p2 p3 num_points rest
             (segment_points @
                [de_casteljau_cubic p0 p1 p2 p3 (real i / real_of_int (num_points - 1))]))"

fun piecewise_loop :: "real point list \<Rightarrow> int \<Rightarrow> nat list \<Rightarrow> real point list \<Rightarrow> error + real point list" where
  "piecewise_loop control_points num_points [] all_curve_points = Inr all_curve_points"
| "piecewise_loop control_points num_points (seg_idx # rest) all_curve_points =
     (let start_idx = int seg_idx * 3 in
      bind_err (py_index control_points start_idx) (\<lambda>p0.
      bind_err (py_index control_points (start_idx + 1)) (\<lambda>p1.
      bind_err (py_index control_points (start_idx + 2)) (\<lambda>p2.
      bind_err (py_index control_points (start_idx + 3)) (\<lambda>p3.
      bind_err (segment_loop p0 p1 p2 p3 num_points [0..<nat num_points] []) (\<lambda>segment_points.
      piecewise_loop control_points num_points rest (all_curve_points @ segment_points)))))))"

definition generate_piecewise_bezier :: "real point list \<Rightarrow> int \<Rightarrow> error + real point list" where
  "generate_piecewise_bezier control_points num_points =
     (let num_segments = (int (length control_points) - 1) div 3
      in piecewise_loop control_points num_points [0..<nat num_segments] [])"

section \<open>Control-point topology\<close>

text \<open>
  The handlers work on the module's global list \<open>control_points\<close>; the model takes the
  list and returns the list after the call. The \<open>event\<close> argument is not read, and
  the closing \<open>draw_scene()\<close> only renders.
\<close>

text \<open>\<open>get_num_segments()\<close> and \<open>get_segment_control_points(segment_index)\<close> of pb.py.\<close>

definition get_num_segments :: "real point list \<Rightarrow> int" where
  "get_num_segments control_points = (int (length control_points) - 1) div 3"

definition get_segment_control_points ::
  "real point list \<Rightarrow> int \<Rightarrow> error + (real point \<times> real point \<times> real point \<times> real point)" where
  "get_segment_control_points control_points segment_index =
     (let start_idx = segment_index * 3 in
      bind_err (py_index control_points start_idx) (\<lambda>p0.
      bind_err (py_index control_points (start_idx + 1)) (\<lambda>p1.
      bind_err (py_index control_points (start_idx + 2)) (\<lambda>p2.
      bind_err (py_index control_points (start_idx + 3)) (\<lambda>p3.
      Inr (p0, p1, p2, p3))))))"

text \<open>\<open>add_segment(event)\<close> of pb.py: three \<open>append\<close> calls after reading the last point.\<close>

definition add_segment :: "real point list \<Rightarrow> error + real point list" where
  "add_segment control_points =
     bind_err (py_index control_points (- 1)) (\<lambda>last_point.
       let new_p1 = add_pt last_point (1.0, 0.5);
           new_p2 = add_pt last_point (2.0, 0.5);
           new_p3 = add_pt last_point (3.0, 0.0)
       in Inr (((control_points @ [new_p1]) @ [new_p2]) @ [new_p3]))"

text \<open>
  \<open>xs.insert(i, x)\<close>: a negative index counts from the end, and an index beyond
  either end is clamped to it; it never raises.
\<close>

definition py_insert :: "'a list \<Rightarrow> int \<Rightarrow> 'a \<Rightarrow> 'a list" where
  "py_insert xs i x =
     (let n = int (length xs);
          j = (if i < 0 then max 0 (i + n) else min i n)
      in take (nat j) xs @ x # drop (nat j) xs)"

text \<open>
  \<open>xs.pop(i)\<close>: removes and returns the element at index \<open>i\<close> (negative from the end),
  IndexError outside the list. The model returns the element and the remaining list.
\<close>

definition py_pop :: "'a list \<Rightarrow> int \<Rightarrow> error + ('a \<times> 'a list)" where
  "py_pop xs i =
     (let n = int (length xs);
          j = (if i < 0 then i + n else i)
      in if 0 \<le> j \<and> j < n then Inr (xs ! nat j, take (nat j) xs @ drop (nat j + 1) xs)
         else Inl IndexError)"

text \<open>
  \<open>increase_degree(event)\<close> of nb.py. \<open>(second_last_point + last_point) / 2.0\<close> is a
  fresh array, so \<open>new_point[1] += 0.5\<close> changes no control point.
\<close>

definition increase_degree :: "real point list \<Rightarrow> error + real point list" where
  "increase_degree control_points =
     bind_err (py_index control_points (- 1)) (\<lambda>last_point.
     bind_err (py_index control_points (- 2)) (\<lambda>second_last_point.
       let new_point = div_pt (add_pt second_last_point last_point) 2.0;
           new_point = (fst new_point, snd new_point + 0.5)
       in Inr (py_insert control_points (- 1) new_point)))"

text \<open>
  \<open>decrease_degree(event)\<close> of nb.py. The guard prints a line and returns; nothing
  is raised. The result is the list after the call and the lines printed.
\<close>

definition decrease_degree :: "real point list \<Rightarrow> error + (real point list \<times> string list)" where
  "decrease_degree control_points =
     (if length control_points \<le> 2
      then Inr (control_points, [''Cannot decrease degree below 1 (minimum 2 control points)''])
      else bind_err (py_pop control_points (- 2)) (\<lambda>(removed, remaining). Inr (remaining, [])))"

section \<open>Closed forms of the loops\<close>

text \<open>
  What one round of the outer loop of \<open>generate_piecewise_bezier\<close> appends for the
  segment \<open>k\<close>, written as a map; \<open>piecewise_loop_closed\<close> below proves it.
\<close>

definition segment_samples :: "real point list \<Rightarrow> int \<Rightarrow> nat \<Rightarrow> real point list" where
  "segment_samples control_points num_points k =
     map (\<lambda>i. de_casteljau_cubic (control_points ! (3 * k)) (control_points ! (3 * k + 1))
                 (control_points ! (3 * k + 2)) (control_points ! (3 * k + 3))
                 (real i / real_of_int (num_points - 1)))
       [0..<nat num_points]"

section \<open>The levels of the evaluator\<close>

lemma next_level_points_Nil: "next_level_points t [] = []"
  by (simp add: next_level_points_def)

lemma next_level_points_single: "next_level_points t [p] = []"
  by (simp add: next_level_points_def)

lemma next_level_points_Cons:
  "next_level_points t (p # q # ps) =
     add_pt (scale (1 - t) p) (scale t q) # next_level_points t (q # ps)"
  by (simp add: next_level_points_def map_upt_Suc del: upt_Suc)

lemma length_next_level_points: "length (next_level_points t ps) = length ps - 1"
  by (simp add: next_level_points_def)

lemma length_levels: "length (levels k t ps) = length ps - k"
  by (induction k arbitrary: ps) (simp_all add: length_next_level_points)

lemma py_index_first: "py_index (p # ps) 0 = Inr p"
  by (simp add: py_index_def)

lemma py_index_Nil: "py_index [] i = Inl IndexError"
  by (simp add: py_index_def)

lemma next_level_points_at_0: "next_level_points 0 ps = butlast (ps :: 'a::ring_1 point list)"
  by (induction ps rule: induct_list012)
    (simp_all add: next_level_points_Nil next_level_points_single next_level_points_Cons
      add_pt_def scale_def)

lemma next_level_points_at_1: "next_level_points 1 ps = tl (ps :: 'a::ring_1 point list)"
  by (induction ps rule: induct_list012)
    (simp_all add: next_level_points_Nil next_level_points_single next_level_points_Cons
      add_pt_def scale_def)

lemma levels_at_0: "levels k 0 ps = take (length ps - k) (ps :: 'a::ring_1 point list)"
proof (induction k arbitrary: ps)
  case 0
  show ?case by simp
next
  case (Suc k)
  have "levels (Suc k) 0 ps = take (length ps - 1 - k) (take (length ps - 1) ps)"
    by (simp add: Suc next_level_points_at_0 butlast_conv_take)
  also have "\<dots> = take (length ps - Suc k) ps"
    by (simp add: min_def)
  finally show ?case .
qed

lemma levels_at_1: "levels k 1 ps = drop k (ps :: 'a::ring_1 point list)"
  by (induction k arbitrary: ps) (simp_all add: next_level_points_at_1 drop_Suc drop_tl)

lemma general_at_0:
  assumes "ps \<noteq> []"
  shows "de_casteljau_general ps 0 = Inr (hd (ps :: 'a::ring_1 point list))"
proof -
  obtain p qs where ps: "ps = p # qs" using assms by (cases ps) auto
  show ?thesis
    by (simp add: de_casteljau_general_def levels_at_0 ps py_index_first)
qed

lemma general_at_1:
  assumes "ps \<noteq> []"
  shows "de_casteljau_general ps 1 = Inr (last (ps :: 'a::ring_1 point list))"
proof -
  have "drop (length (butlast ps)) (butlast ps @ [last ps]) = [last ps]"
    by simp
  with assms have "drop (length ps - 1) ps = [last ps]"
    by simp
  then show ?thesis
    by (simp add: de_casteljau_general_def levels_at_1 py_index_first nat_diff_distrib')
qed

lemma general_four_points:
  "de_casteljau_general [p0, p1, p2, p3] t =
     Inr (add_pt
       (scale (1 - t) (add_pt (scale (1 - t) (add_pt (scale (1 - t) p0) (scale t p1)))
                              (scale t (add_pt (scale (1 - t) p1) (scale t p2)))))
       (scale t (add_pt (scale (1 - t) (add_pt (scale (1 - t) p1) (scale t p2)))
                        (scale t (add_pt (scale (1 - t) p2) (scale t p3))))))"
  by (simp add: de_casteljau_general_def numeral_eq_Suc next_level_points_Cons
      next_level_points_single py_index_first)

section \<open>Claims about the evaluator\<close>

text \<open>
  C1. With at least two control points, \<open>de_casteljau_general\<close> returns the first
  control point at \<open>t = 0\<close> and the last control point at \<open>t = 1\<close>. The proof uses
  \<open>1 - 0 = 1\<close>, \<open>1 - 1 = 0\<close>, \<open>1 * x = x\<close>, \<open>0 * x = 0\<close>, \<open>x + 0 = x\<close> and
  \<open>0 + x = x\<close>, the laws of a ring with unit.
\<close>

theorem evaluator_endpoints:
  fixes control_points :: "'a::ring_1 point list"
  assumes "2 \<le> length control_points"
  shows "de_casteljau_general control_points 0 = Inr (hd control_points) \<and>
         de_casteljau_general control_points 1 = Inr (last control_points)"
proof -
  from assms have "control_points \<noteq> []" by auto
  then show ?thesis by (simp add: general_at_0 general_at_1)
qed

theorem evaluator_endpoints_witness:
  "2 \<le> length ([(1, 1), (2, 3), (5, 1)] :: real point list) \<and>
   de_casteljau_general [(1::real, 1), (2, 3), (5, 1)] 0 = Inr (1, 1) \<and>
   de_casteljau_general [(1::real, 1), (2, 3), (5, 1)] 1 = Inr (5, 1)"
  using evaluator_endpoints [of "[(1::real, 1), (2, 3), (5, 1)]"] by simp

text \<open>
  C2. On four control points and for every \<open>t\<close>, the cubic evaluator (\<open>de_casteljau\<close>
  of cb.py and pb.py, \<open>de_casteljau_cubic\<close> of tc.py) returns the point that
  \<open>de_casteljau_general\<close> returns. The statement is at the sort
  \<open>{one,minus,times,plus}\<close>: the two evaluators apply the same operations in the same
  order, so they agree under every interpretation of the arithmetic, rounding
  included.
\<close>

theorem cubic_agrees_with_general:
  "de_casteljau_general [p0, p1, p2, p3] t = Inr (de_casteljau_cubic p0 p1 p2 p3 t) \<and>
   de_casteljau_general [p0, p1, p2, p3] t = Inr (de_casteljau p0 p1 p2 p3 t)"
  by (simp add: general_four_points de_casteljau_cubic_def de_casteljau_def Let_def)

text \<open>
  C3. For the control points \<open>(1,1), (2,3), (4,3), (5,1)\<close> the evaluator returns
  \<open>(3.0, 2.5)\<close> at \<open>t = 0.5\<close>, through the general evaluator and through the cubic
  one.
\<close>

theorem evaluate_cubic_at_half:
  "de_casteljau_general [(1::real, 1), (2, 3), (4, 3), (5, 1)] 0.5 = Inr (3.0, 2.5) \<and>
   de_casteljau (1::real, 1) (2, 3) (4, 3) (5, 1) 0.5 = (3.0, 2.5)"
  by (simp add: general_four_points de_casteljau_def Let_def add_pt_def scale_def)

text \<open>
  C8, as amended. The evaluator checks nothing about its input. On the empty list it
  raises IndexError, at \<open>return points[0]\<close>; on a single control point it runs no
  level and returns that point, for every \<open>t\<close>.
\<close>

theorem evaluator_short_input:
  assumes "length control_points < 2"
  shows "de_casteljau_general control_points t =
           (case control_points of [] \<Rightarrow> Inl IndexError | p # _ \<Rightarrow> Inr p)"
proof (cases control_points)
  case Nil
  then show ?thesis by (simp add: de_casteljau_general_def py_index_Nil)
next
  case (Cons p qs)
  with assms have "qs = []" by simp
  with Cons show ?thesis by (simp add: de_casteljau_general_def py_index_first)
qed

theorem evaluator_short_input_witness:
  "length ([] :: real point list) < 2 \<and>
   de_casteljau_general ([] :: real point list) 0.5 = Inl IndexError"
  using evaluator_short_input [of "[] :: real point list" "0.5"] by simp

text \<open>
  C8 as stated fails on one control point: the evaluator returns it and raises
  nothing.
\<close>

theorem evaluator_single_point_counterexample:
  "length ([(1, 1)] :: real point list) < 2 \<and> de_casteljau_general [(1::real, 1)] 0.5 = Inr (1, 1)"
  by (simp add: de_casteljau_general_def py_index_first)

section \<open>The loops of the sampler\<close>

text \<open>
  Each loop is a map once nothing raises: the sampling loops when \<open>num_points\<close> is
  not 1, the segment loop of the piecewise sampler for every length of the input,
  since \<open>3 * k + 3 < len(control_points)\<close> for every \<open>k < (len(control_points) - 1) // 3\<close>.
\<close>

lemma bind_err_Inr: "bind_err (Inr v) f = f v"
  by (simp add: bind_err_def)

lemma curve_loop_closed:
  assumes "num_points - 1 \<noteq> 0"
    and "\<And>t. de_casteljau_general control_points t = Inr (f t)"
  shows "curve_loop control_points num_points idxs curve_points =
           Inr (curve_points @ map (\<lambda>i. f (real i / real_of_int (num_points - 1))) idxs)"
  using assms by (induction idxs arbitrary: curve_points) (simp_all add: bind_err_Inr)

lemma general_total:
  assumes "control_points \<noteq> []"
  shows "de_casteljau_general control_points t =
           Inr (hd (levels (length control_points - 1) t control_points))"
proof -
  have "length (levels (length control_points - 1) t control_points) = 1"
    using assms by (simp add: length_levels Suc_leI)
  then obtain p where "levels (length control_points - 1) t control_points = [p]"
    by (cases "levels (length control_points - 1) t control_points") auto
  then show ?thesis
    by (simp add: de_casteljau_general_def py_index_first nat_diff_distrib')
qed

lemma py_index_nat: "i < length xs \<Longrightarrow> py_index xs (int i) = Inr (xs ! i)"
  by (simp add: py_index_def)

lemma segment_indices:
  assumes "3 * k + 3 < length xs"
  shows "py_index xs (int k * 3) = Inr (xs ! (3 * k))"
    and "py_index xs (int k * 3 + 1) = Inr (xs ! (3 * k + 1))"
    and "py_index xs (int k * 3 + 2) = Inr (xs ! (3 * k + 2))"
    and "py_index xs (int k * 3 + 3) = Inr (xs ! (3 * k + 3))"
proof -
  have "int k * 3 = int (3 * k)" "int k * 3 + 1 = int (3 * k + 1)"
    "int k * 3 + 2 = int (3 * k + 2)" "int k * 3 + 3 = int (3 * k + 3)"
    by simp_all
  with assms show "py_index xs (int k * 3) = Inr (xs ! (3 * k))"
    and "py_index xs (int k * 3 + 1) = Inr (xs ! (3 * k + 1))"
    and "py_index xs (int k * 3 + 2) = Inr (xs ! (3 * k + 2))"
    and "py_index xs (int k * 3 + 3) = Inr (xs ! (3 * k + 3))"
    by (simp_all only: py_index_nat)
qed

lemma segment_loop_closed:
  assumes "num_points - 1 \<noteq> 0"
  shows "segment_loop p0 p1 p2 p3 num_points idxs segment_points =
           Inr (segment_points @
             map (\<lambda>i. de_casteljau_cubic p0 p1 p2 p3 (real i / real_of_int (num_points - 1))) idxs)"
  using assms by (induction idxs arbitrary: segment_points) simp_all

lemma segment_loop_samples:
  assumes "num_points \<noteq> 1"
  shows "segment_loop (xs ! (3 * k)) (xs ! (3 * k + 1)) (xs ! (3 * k + 2)) (xs ! (3 * k + 3))
           num_points [0..<nat num_points] [] = Inr (segment_samples xs num_points k)"
  using assms by (simp add: segment_loop_closed segment_samples_def)

lemma piecewise_loop_closed:
  assumes "num_points \<noteq> 1"
    and "\<forall>k\<in>set ks. 3 * k + 3 < length control_points"
  shows "piecewise_loop control_points num_points ks all_curve_points =
           Inr (all_curve_points @ concat (map (segment_samples control_points num_points) ks))"
  using assms(2)
proof (induction ks arbitrary: all_curve_points)
  case Nil
  show ?case by simp
next
  case (Cons k ks)
  from Cons.prems have k: "3 * k + 3 < length control_points"
    and ks: "\<forall>k\<in>set ks. 3 * k + 3 < length control_points"
    by simp_all
  have "piecewise_loop control_points num_points (k # ks) all_curve_points =
          piecewise_loop control_points num_points ks
            (all_curve_points @ segment_samples control_points num_points k)"
    by (simp only: piecewise_loop.simps Let_def segment_indices [OF k] bind_err_Inr
        segment_loop_samples [OF assms(1)])
  also have "\<dots> = Inr ((all_curve_points @ segment_samples control_points num_points k) @
                      concat (map (segment_samples control_points num_points) ks))"
    by (rule Cons.IH [OF ks])
  finally show ?case by simp
qed

lemma segments_in_range:
  assumes "k < nat ((int (length xs) - 1) div 3)"
  shows "3 * k + 3 < length xs"
  using assms by simp

lemma generate_piecewise_closed:
  assumes "num_points \<noteq> 1"
  shows "generate_piecewise_bezier control_points num_points =
           Inr (concat (map (segment_samples control_points num_points)
                  [0..<nat ((int (length control_points) - 1) div 3)]))"
proof -
  have "\<forall>k\<in>set [0..<nat ((int (length control_points) - 1) div 3)].
          3 * k + 3 < length control_points"
    by (simp add: segments_in_range)
  from piecewise_loop_closed [OF assms this, of "[]"] show ?thesis
    by (simp add: generate_piecewise_bezier_def)
qed

lemma length_segment_samples: "length (segment_samples xs num_points k) = nat num_points"
  by (simp add: segment_samples_def)

lemma length_concat_segment_samples:
  "length (concat (map (segment_samples xs num_points) ks)) = length ks * nat num_points"
  by (induction ks) (simp_all add: length_segment_samples)

lemma four_points_from:
  assumes "3 * k + 3 < length xs"
  shows "take 4 (drop (3 * k) xs) = [xs ! (3 * k), xs ! (3 * k + 1), xs ! (3 * k + 2), xs ! (3 * k + 3)]"
proof (rule nth_equalityI)
  show "length (take 4 (drop (3 * k) xs)) =
          length [xs ! (3 * k), xs ! (3 * k + 1), xs ! (3 * k + 2), xs ! (3 * k + 3)]"
    using assms by simp
next
  fix i
  assume "i < length (take 4 (drop (3 * k) xs))"
  then have "i < 4" by simp
  then consider "i = 0" | "i = 1" | "i = 2" | "i = 3" by linarith
  then show "take 4 (drop (3 * k) xs) ! i =
               [xs ! (3 * k), xs ! (3 * k + 1), xs ! (3 * k + 2), xs ! (3 * k + 3)] ! i"
    using assms by cases simp_all
qed

lemma general_sampler_on_segment:
  assumes "3 * k + 3 < length xs" and "num_points \<noteq> 1"
  shows "generate_higher_order_bezier (take 4 (drop (3 * k) xs)) num_points =
           Inr (segment_samples xs num_points k)"
proof -
  let ?p0 = "xs ! (3 * k)" and ?p1 = "xs ! (3 * k + 1)"
    and ?p2 = "xs ! (3 * k + 2)" and ?p3 = "xs ! (3 * k + 3)"
  have n1: "num_points - 1 \<noteq> 0" using assms(2) by simp
  have ev: "\<And>t. de_casteljau_general [?p0, ?p1, ?p2, ?p3] t = Inr (de_casteljau_cubic ?p0 ?p1 ?p2 ?p3 t)"
    by (simp add: general_four_points de_casteljau_cubic_def Let_def)
  from curve_loop_closed [OF n1 ev, of "[0..<nat num_points]" "[]"] show ?thesis
    by (simp add: generate_higher_order_bezier_def four_points_from [OF assms(1)]
        segment_samples_def)
qed

lemma get_segment_in_range:
  assumes "3 * k + 3 < length xs"
  shows "get_segment_control_points xs (int k) =
           Inr (xs ! (3 * k), xs ! (3 * k + 1), xs ! (3 * k + 2), xs ! (3 * k + 3))"
  by (simp add: get_segment_control_points_def Let_def segment_indices [OF assms] bind_err_Inr)

lemma cubic_at_0: "de_casteljau_cubic p0 p1 p2 p3 (0::real) = p0"
  by (simp add: de_casteljau_cubic_def Let_def add_pt_def scale_def)

lemma cubic_at_1: "de_casteljau_cubic p0 p1 p2 p3 (1::real) = p3"
  by (simp add: de_casteljau_cubic_def Let_def add_pt_def scale_def)

lemma hd_segment_samples:
  assumes "2 \<le> num_points"
  shows "hd (segment_samples xs num_points k) = xs ! (3 * k)"
proof -
  from assms obtain j where j: "nat num_points = Suc j"
    by (cases "nat num_points") auto
  have "[0..<Suc j] = 0 # [Suc 0..<Suc j]"
    by (simp add: upt_conv_Cons)
  then show ?thesis
    by (simp add: segment_samples_def j cubic_at_0 del: upt_Suc)
qed

lemma last_segment_samples:
  assumes "2 \<le> num_points"
  shows "last (segment_samples xs num_points k) = xs ! (3 * k + 3)"
proof -
  from assms obtain j where j: "nat num_points = Suc j"
    by (cases "nat num_points") auto
  with assms have "real_of_int (num_points - 1) = real j" and "j \<noteq> 0"
    by auto
  then show ?thesis
    by (simp add: segment_samples_def j cubic_at_1)
qed

lemma piecewise_ignores_tail:
  assumes "num_points \<noteq> 1"
  shows "generate_piecewise_bezier
           (take (3 * nat (get_num_segments control_points) + 1) control_points) num_points =
         generate_piecewise_bezier control_points num_points"
  unfolding get_num_segments_def
proof -
  let ?m = "nat ((int (length control_points) - 1) div 3)"
  let ?short = "take (3 * ?m + 1) control_points"
  have m: "nat ((int (length ?short) - 1) div 3) = ?m"
    by (simp add: min_def)
  have "segment_samples ?short num_points k = segment_samples control_points num_points k"
    if "k < ?m" for k
    using that by (simp add: segment_samples_def)
  then have eq: "map (segment_samples ?short num_points) [0..<?m] =
                 map (segment_samples control_points num_points) [0..<?m]"
    by simp
  show "generate_piecewise_bezier ?short num_points =
          generate_piecewise_bezier control_points num_points"
    by (simp only: generate_piecewise_closed [OF assms] m eq)
qed

section \<open>Claims about the sampler\<close>

text \<open>
  C4. With at least two control points and \<open>num_points \<ge> 2\<close>,
  \<open>generate_bezier_curve\<close> (and \<open>generate_higher_order_bezier\<close>, the same loop)
  returns exactly \<open>num_points\<close> points, and the point at index \<open>i\<close> is what the
  evaluator returns at \<open>t = i / (num_points - 1)\<close>.
\<close>

theorem sample_curve_points:
  assumes "2 \<le> length control_points" and "2 \<le> num_points"
  shows "\<exists>curve. generate_bezier_curve control_points num_points = Inr curve \<and>
           generate_higher_order_bezier control_points num_points = Inr curve \<and>
           int (length curve) = num_points \<and>
           (\<forall>i<length curve.
              de_casteljau_general control_points (real i / real_of_int (num_points - 1)) =
                Inr (curve ! i))"
proof -
  let ?f = "\<lambda>t. hd (levels (length control_points - 1) t control_points)"
  let ?curve = "map (\<lambda>i. ?f (real i / real_of_int (num_points - 1))) [0..<nat num_points]"
  from assms have ne: "control_points \<noteq> []" and n1: "num_points - 1 \<noteq> 0" by auto
  have ev: "\<And>t. de_casteljau_general control_points t = Inr (?f t)"
    by (rule general_total [OF ne])
  have loop: "curve_loop control_points num_points [0..<nat num_points] [] = Inr ?curve"
    using curve_loop_closed [OF n1 ev, of "[0..<nat num_points]" "[]"] by simp
  have "generate_bezier_curve control_points num_points = Inr ?curve"
    by (simp only: generate_bezier_curve_def loop)
  moreover have "generate_higher_order_bezier control_points num_points = Inr ?curve"
    by (simp only: generate_higher_order_bezier_def loop)
  moreover have "int (length ?curve) = num_points"
    using assms by simp
  moreover have "\<forall>i<length ?curve.
      de_casteljau_general control_points (real i / real_of_int (num_points - 1)) = Inr (?curve ! i)"
    by (simp add: ev)
  ultimately show ?thesis by blast
qed

theorem sample_curve_points_witness:
  "2 \<le> length ([(0, 0), (2, 4)] :: real point list) \<and> (2::int) \<le> 3 \<and>
   generate_bezier_curve [(0, 0), (2, 4)] 3 = Inr [(0, 0), (1, 2), (2, 4)] \<and>
   generate_higher_order_bezier [(0, 0), (2, 4)] 3 = Inr [(0, 0), (1, 2), (2, 4)]"
proof -
  have ev: "\<And>t. de_casteljau_general [(0::real, 0), (2, 4)] t = Inr (2 * t, 4 * t)"
    by (simp add: de_casteljau_general_def next_level_points_Cons next_level_points_single
        py_index_first add_pt_def scale_def)
  obtain curve where c: "generate_bezier_curve [(0, 0), (2, 4)] 3 = Inr curve"
      "generate_higher_order_bezier [(0, 0), (2, 4)] 3 = Inr curve"
      "int (length curve) = 3"
      "\<forall>i<length curve. de_casteljau_general [(0, 0), (2, 4)] (real i / real_of_int (3 - 1)) = Inr (curve ! i)"
    using sample_curve_points [of "[(0, 0), (2, 4)]" 3] by auto
  from c(3) have len: "length curve = 3" by simp
  have "curve ! 0 = (0, 0)"
    using c(4) [rule_format, of 0] len by (simp add: ev)
  moreover have "curve ! 1 = (1, 2)"
    using c(4) [rule_format, of 1] len by (simp add: ev)
  moreover have "curve ! 2 = (2, 4)"
    using c(4) [rule_format, of 2] len by (simp add: ev)
  ultimately have "curve = [(0, 0), (1, 2), (2, 4)]"
    using len by (auto simp: list_eq_iff_nth_eq less_Suc_eq numeral_3_eq_3 numeral_2_eq_2)
  with c(1,2) show ?thesis by simp
qed

text \<open>
  C5. For a chain of \<open>3 * m + 1\<close> control points, \<open>m \<ge> 1\<close>, and
  \<open>num_points \<ge> 2\<close>, \<open>generate_piecewise_bezier\<close> returns the concatenation of
  \<open>m\<close> blocks, \<open>m * num_points\<close> points in all; block \<open>k\<close> is what the general
  sampler returns on the four points \<open>control_points[3k .. 3k+3]\<close>, which are what
  \<open>get_segment_control_points\<close> returns for \<open>k\<close>; and at every inner shared index
  \<open>3 * k\<close> the last point of block \<open>k - 1\<close> and the first point of block \<open>k\<close> are
  the control point at that index.
\<close>

theorem sample_piecewise_chain:
  assumes "length control_points = 3 * m + 1" and "1 \<le> m" and "2 \<le> num_points"
  shows "\<exists>blocks.
           generate_piecewise_bezier control_points num_points = Inr (concat blocks) \<and>
           length blocks = m \<and>
           length (concat blocks) = m * nat num_points \<and>
           (\<forall>k<m. generate_higher_order_bezier (take 4 (drop (3 * k) control_points)) num_points =
                     Inr (blocks ! k) \<and>
                   (\<exists>p0 p1 p2 p3.
                      get_segment_control_points control_points (int k) = Inr (p0, p1, p2, p3) \<and>
                      take 4 (drop (3 * k) control_points) = [p0, p1, p2, p3])) \<and>
           (\<forall>k. 1 \<le> k \<and> k < m \<longrightarrow>
                  last (blocks ! (k - 1)) = control_points ! (3 * k) \<and>
                  hd (blocks ! k) = control_points ! (3 * k))"
proof -
  let ?blocks = "map (segment_samples control_points num_points) [0..<m]"
  from assms(3) have n1: "num_points \<noteq> 1" by simp
  from assms(1) have segs: "nat ((int (length control_points) - 1) div 3) = m" by simp
  have rng: "3 * k + 3 < length control_points" if "k < m" for k
    using that assms(1) by simp
  have gen: "generate_piecewise_bezier control_points num_points = Inr (concat ?blocks)"
    using generate_piecewise_closed [OF n1, of control_points] by (simp only: segs)
  have len: "length ?blocks = m" by simp
  have tot: "length (concat ?blocks) = m * nat num_points"
    by (simp add: length_concat_segment_samples)
  have blk: "generate_higher_order_bezier (take 4 (drop (3 * k) control_points)) num_points =
               Inr (?blocks ! k) \<and>
             (\<exists>p0 p1 p2 p3.
                get_segment_control_points control_points (int k) = Inr (p0, p1, p2, p3) \<and>
                take 4 (drop (3 * k) control_points) = [p0, p1, p2, p3])" if "k < m" for k
  proof -
    note r = rng [OF that]
    have "generate_higher_order_bezier (take 4 (drop (3 * k) control_points)) num_points =
            Inr (?blocks ! k)"
      using that general_sampler_on_segment [OF r n1] by simp
    moreover have "\<exists>p0 p1 p2 p3.
        get_segment_control_points control_points (int k) = Inr (p0, p1, p2, p3) \<and>
        take 4 (drop (3 * k) control_points) = [p0, p1, p2, p3]"
      using get_segment_in_range [OF r] four_points_from [OF r] by blast
    ultimately show ?thesis by blast
  qed
  have joint: "last (?blocks ! (k - 1)) = control_points ! (3 * k) \<and>
               hd (?blocks ! k) = control_points ! (3 * k)" if "1 \<le> k \<and> k < m" for k
  proof -
    from that have "k - 1 < m" and "k < m" and "3 * (k - 1) + 3 = 3 * k" by auto
    then show ?thesis
      by (simp add: last_segment_samples [OF assms(3)] hd_segment_samples [OF assms(3)])
  qed
  from gen len tot blk joint show ?thesis by blast
qed

theorem sample_piecewise_chain_witness:
  "length ([(0, 0), (1, 2), (2, 2), (3, 0), (4, - 2), (5, - 2), (6, 0)] :: real point list) = 3 * 2 + 1 \<and>
   (1::nat) \<le> 2 \<and> (2::int) \<le> 2 \<and>
   generate_piecewise_bezier
     [(0::real, 0), (1, 2), (2, 2), (3, 0), (4, - 2), (5, - 2), (6, 0)] 2 =
     Inr [(0, 0), (3, 0), (3, 0), (6, 0)]"
proof -
  have "generate_piecewise_bezier
          [(0::real, 0), (1, 2), (2, 2), (3, 0), (4, - 2), (5, - 2), (6, 0)] 2 =
        Inr [(0, 0), (3, 0), (3, 0), (6, 0)]"
    by code_simp
  then show ?thesis
    using sample_piecewise_chain
      [of "[(0::real, 0), (1, 2), (2, 2), (3, 0), (4, - 2), (5, - 2), (6, 0)]" 2 2]
    by simp
qed

text \<open>
  C9, as amended. \<open>generate_piecewise_bezier\<close> does not check the length of its
  input. When \<open>(length - 1) % 3\<close> is not 0 and \<open>num_points \<ge> 2\<close> it raises
  nothing: it returns the concatenation of one block per complete segment,
  \<open>(length - 1) // 3\<close> blocks (none when the quotient is not positive) and
  \<open>((length - 1) // 3) * num_points\<close> points in all; block \<open>k\<close> is what the general
  sampler returns on the four points \<open>control_points[3k .. 3k+3]\<close>, which are what
  \<open>get_segment_control_points\<close> returns for \<open>k\<close>; and the control points after the
  last complete segment are ignored, the result being that of the call on the list
  cut after the last complete segment.
\<close>

theorem piecewise_other_lengths:
  assumes "(int (length control_points) - 1) mod 3 \<noteq> 0" and "2 \<le> num_points"
  shows "\<exists>blocks.
           generate_piecewise_bezier control_points num_points = Inr (concat blocks) \<and>
           length blocks = nat (get_num_segments control_points) \<and>
           length (concat blocks) = nat (get_num_segments control_points) * nat num_points \<and>
           (\<forall>k<nat (get_num_segments control_points).
              generate_higher_order_bezier (take 4 (drop (3 * k) control_points)) num_points =
                Inr (blocks ! k) \<and>
              (\<exists>p0 p1 p2 p3.
                 get_segment_control_points control_points (int k) = Inr (p0, p1, p2, p3) \<and>
                 take 4 (drop (3 * k) control_points) = [p0, p1, p2, p3])) \<and>
           generate_piecewise_bezier
             (take (3 * nat (get_num_segments control_points) + 1) control_points) num_points =
             Inr (concat blocks)"
proof -
  let ?m = "nat (get_num_segments control_points)"
  let ?blocks = "map (segment_samples control_points num_points) [0..<?m]"
  from assms(2) have n1: "num_points \<noteq> 1" by simp
  have segs: "nat ((int (length control_points) - 1) div 3) = ?m"
    by (simp only: get_num_segments_def)
  have rng: "3 * k + 3 < length control_points" if "k < ?m" for k
    using that by (simp only: get_num_segments_def segments_in_range)
  have c: "generate_piecewise_bezier control_points num_points = Inr (concat ?blocks)"
    using generate_piecewise_closed [OF n1, of control_points] by (simp only: segs)
  have b: "length ?blocks = ?m"
    by simp
  have l: "length (concat ?blocks) = ?m * nat num_points"
    by (simp add: length_concat_segment_samples)
  have blk: "generate_higher_order_bezier (take 4 (drop (3 * k) control_points)) num_points =
               Inr (?blocks ! k) \<and>
             (\<exists>p0 p1 p2 p3.
                get_segment_control_points control_points (int k) = Inr (p0, p1, p2, p3) \<and>
                take 4 (drop (3 * k) control_points) = [p0, p1, p2, p3])" if "k < ?m" for k
  proof -
    note r = rng [OF that]
    have "generate_higher_order_bezier (take 4 (drop (3 * k) control_points)) num_points =
            Inr (?blocks ! k)"
      using that general_sampler_on_segment [OF r n1] by simp
    moreover have "\<exists>p0 p1 p2 p3.
        get_segment_control_points control_points (int k) = Inr (p0, p1, p2, p3) \<and>
        take 4 (drop (3 * k) control_points) = [p0, p1, p2, p3]"
      using get_segment_in_range [OF r] four_points_from [OF r] by blast
    ultimately show ?thesis by blast
  qed
  have t: "generate_piecewise_bezier (take (3 * ?m + 1) control_points) num_points =
           Inr (concat ?blocks)"
    by (simp only: piecewise_ignores_tail [OF n1] c)
  from c b l blk t show ?thesis by blast
qed

theorem piecewise_other_lengths_witness:
  "(int (length ([(0, 0), (1, 2), (2, 2), (3, 0), (4, 1)] :: real point list)) - 1) mod 3 \<noteq> 0 \<and>
   (2::int) \<le> 3 \<and>
   get_num_segments [(0, 0), (1, 2), (2, 2), (3, 0), (4, 1)] = 1 \<and>
   generate_piecewise_bezier [(0, 0), (1, 2), (2, 2), (3, 0), (4, 1)] 3 =
     Inr [(0, 0), (1.5, 1.5), (3, 0)] \<and>
   generate_higher_order_bezier (take 4 (drop (3 * 0) [(0, 0), (1, 2), (2, 2), (3, 0), (4, 1)])) 3 =
     Inr [(0, 0), (1.5, 1.5), (3, 0)]"
proof -
  let ?cps = "[(0, 0), (1, 2), (2, 2), (3, 0), (4, 1)] :: real point list"
  have h1: "(int (length ?cps) - 1) mod 3 \<noteq> 0"
    by simp
  have h2: "(2::int) \<le> 3"
    by simp
  have s: "get_num_segments ?cps = 1"
    by (simp add: get_num_segments_def)
  have e: "generate_piecewise_bezier ?cps 3 = Inr [(0, 0), (1.5, 1.5), (3, 0)]"
    by code_simp
  from piecewise_other_lengths [OF h1 h2] obtain blocks
    where c: "generate_piecewise_bezier ?cps 3 = Inr (concat blocks)"
      and b: "length blocks = nat (get_num_segments ?cps)"
      and k: "\<forall>k<nat (get_num_segments ?cps).
                generate_higher_order_bezier (take 4 (drop (3 * k) ?cps)) 3 = Inr (blocks ! k)"
    by blast
  from b s obtain block where one: "blocks = [block]"
    by (cases blocks) auto
  with c e have "block = [(0, 0), (1.5, 1.5), (3, 0)]"
    by simp
  moreover from k s one
  have "generate_higher_order_bezier (take 4 (drop (3 * 0) ?cps)) 3 = Inr block"
    by simp
  ultimately have g: "generate_higher_order_bezier (take 4 (drop (3 * 0) ?cps)) 3 =
      Inr [(0, 0), (1.5, 1.5), (3, 0)]"
    by simp
  from h1 h2 s e g show ?thesis
    by (intro conjI)
qed

text \<open>
  C9 as stated fails on six control points: \<open>(6 - 1) % 3 = 2\<close>, and the sampler
  returns the three samples of the one complete segment.
\<close>

theorem piecewise_six_points_counterexample:
  "(int (length ([(0, 0), (1, 2), (2, 2), (3, 0), (4, 1), (5, 1)] :: real point list)) - 1) mod 3 \<noteq> 0 \<and>
   generate_piecewise_bezier [(0::real, 0), (1, 2), (2, 2), (3, 0), (4, 1), (5, 1)] 3 =
     Inr [(0, 0), (1.5, 1.5), (3, 0)]"
  by code_simp

section \<open>List operations of the handlers\<close>

text \<open>
  The handlers read and change the end of the list, so their effect is stated on a
  list written as a front part followed by its last one or two points.
\<close>

lemma py_index_last: "py_index (front @ [b]) (- 1) = Inr b"
  by (simp add: py_index_def)

lemma py_index_second_last: "py_index (front @ [a, b]) (- 2) = Inr a"
  by (simp add: py_index_def nth_append)

lemma py_insert_before_last: "py_insert (front @ [b]) (- 1) x = front @ [x, b]"
  by (simp add: py_insert_def Let_def)

lemma py_pop_second_last: "py_pop (front @ [x, b]) (- 2) = Inr (x, front @ [b])"
  by (simp add: py_pop_def Let_def nth_append)

lemma two_last_points:
  assumes "2 \<le> length xs"
  obtains front a b where "xs = front @ [a, b]"
proof -
  from assms obtain ys b where xs: "xs = ys @ [b]"
    by (cases xs rule: rev_cases) auto
  with assms obtain front a where "ys = front @ [a]"
    by (cases ys rule: rev_cases) auto
  with xs have "xs = front @ [a, b]" by simp
  then show ?thesis by (rule that)
qed

lemma increase_degree_closed:
  "increase_degree (front @ [a, b]) =
     Inr (front @ [a, (fst (div_pt (add_pt a b) 2.0), snd (div_pt (add_pt a b) 2.0) + 0.5), b])"
proof -
  have l: "py_index (front @ [a, b]) (- 1) = Inr b"
    using py_index_last [of "front @ [a]" b] by simp
  have i: "py_insert (front @ [a, b]) (- 1) x = front @ [a, x, b]" for x
    using py_insert_before_last [of "front @ [a]" b x] by simp
  show ?thesis
    by (simp only: increase_degree_def l py_index_second_last bind_err_def sum.case Let_def i)
qed

lemma decrease_degree_closed:
  "decrease_degree (front @ [a, x, b]) = Inr (front @ [a, b], [])"
proof -
  have p: "py_pop (front @ [a, x, b]) (- 2) = Inr (x, front @ [a, b])"
    using py_pop_second_last [of "front @ [a]" x b] by simp
  have "\<not> length (front @ [a, x, b]) \<le> 2"
    by simp
  then show ?thesis
    by (simp only: decrease_degree_def if_False p bind_err_def sum.case prod.case)
qed

lemma add_segment_closed:
  "add_segment (front @ [b]) =
     Inr (front @ [b, add_pt b (1, 0.5), add_pt b (2, 0.5), add_pt b (3, 0)])"
  by (simp add: add_segment_def py_index_last bind_err_def)

section \<open>Claims about the control-point topology\<close>

text \<open>
  C6. On at least three control points, \<open>increase_degree\<close> followed by
  \<open>decrease_degree\<close> gives back a list with the first point, the last point and the
  length of the original list. (The inserted point is the one removed, so the whole
  list comes back.)
\<close>

theorem degree_round_trip:
  assumes "3 \<le> length control_points"
  shows "\<exists>raised lowered printed.
           increase_degree control_points = Inr raised \<and>
           decrease_degree raised = Inr (lowered, printed) \<and>
           hd lowered = hd control_points \<and>
           last lowered = last control_points \<and>
           length lowered = length control_points"
proof -
  from assms have "2 \<le> length control_points" by simp
  then obtain front a b where cps: "control_points = front @ [a, b]"
    by (rule two_last_points)
  let ?new = "(fst (div_pt (add_pt a b) 2.0), snd (div_pt (add_pt a b) 2.0) + 0.5)"
  have "increase_degree control_points = Inr (front @ [a, ?new, b])"
    by (simp only: cps increase_degree_closed)
  moreover have "decrease_degree (front @ [a, ?new, b]) = Inr (control_points, [])"
    by (simp only: cps decrease_degree_closed)
  ultimately show ?thesis by blast
qed

theorem degree_round_trip_witness:
  "3 \<le> length ([(1, 1), (2, 3), (5, 1)] :: real point list) \<and>
   increase_degree [(1, 1), (2, 3), (5, 1)] = Inr [(1, 1), (2, 3), (3.5, 2.5), (5, 1)] \<and>
   decrease_degree [(1, 1), (2, 3), (3.5, 2.5), (5, 1)] = Inr ([(1, 1), (2, 3), (5, 1)], [])"
proof -
  have h: "3 \<le> length ([(1, 1), (2, 3), (5, 1)] :: real point list)"
    by simp
  have i: "increase_degree [(1, 1), (2, 3), (5, 1)] = Inr [(1, 1), (2, 3), (3.5, 2.5), (5, 1)]"
    by code_simp
  have d: "decrease_degree [(1, 1), (2, 3), (3.5, 2.5), (5, 1)] = Inr ([(1, 1), (2, 3), (5, 1)], [])"
    by code_simp
  from degree_round_trip [OF h] obtain raised lowered printed
    where "increase_degree [(1, 1), (2, 3), (5, 1)] = Inr raised"
      and "decrease_degree raised = Inr (lowered, printed)"
    by blast
  with i d have "lowered = [(1, 1), (2, 3), (5, 1)]"
    by simp
  with h i d show ?thesis
    by blast
qed

text \<open>
  C7. For a list with \<open>(length - 1) % 3 = 0\<close> and last point \<open>L\<close>, \<open>add_segment\<close>
  appends \<open>L + (1, 0.5)\<close>, \<open>L + (2, 0.5)\<close>, \<open>L + (3, 0)\<close> in this order: the length
  grows by 3, \<open>get_num_segments\<close> by 1, the points present before are unchanged,
  \<open>(length - 1) % 3 = 0\<close> still holds, and the new segment, read by
  \<open>get_segment_control_points\<close>, starts at the old last point.
\<close>

theorem add_segment_appends:
  assumes "(int (length control_points) - 1) mod 3 = 0"
  shows "\<exists>extended.
           add_segment control_points = Inr extended \<and>
           extended = control_points @
             [add_pt (last control_points) (1, 0.5),
              add_pt (last control_points) (2, 0.5),
              add_pt (last control_points) (3, 0)] \<and>
           length extended = length control_points + 3 \<and>
           get_num_segments extended = get_num_segments control_points + 1 \<and>
           take (length control_points) extended = control_points \<and>
           (int (length extended) - 1) mod 3 = 0 \<and>
           get_segment_control_points extended (get_num_segments control_points) =
             Inr (last control_points,
                  add_pt (last control_points) (1, 0.5),
                  add_pt (last control_points) (2, 0.5),
                  add_pt (last control_points) (3, 0))"
proof -
  from assms have "control_points \<noteq> []" by auto
  then obtain front b where cps: "control_points = front @ [b]"
    by (cases control_points rule: rev_cases) auto
  let ?L = "last control_points"
  let ?p1 = "add_pt ?L (1, 0.5)" and ?p2 = "add_pt ?L (2, 0.5)" and ?p3 = "add_pt ?L (3, 0)"
  let ?ext = "control_points @ [?p1, ?p2, ?p3]"
  have "length front mod 3 = 0"
    using assms by (simp add: cps) presburger
  then obtain m where m: "length front = 3 * m"
    by auto
  have a: "add_segment control_points = Inr ?ext"
    by (simp add: cps add_segment_closed)
  have l: "length ?ext = length control_points + 3"
    by simp
  have k: "get_num_segments control_points = int m"
    by (simp add: get_num_segments_def cps m)
  have s: "get_num_segments ?ext = get_num_segments control_points + 1"
    by (simp add: get_num_segments_def cps m)
  have t: "take (length control_points) ?ext = control_points"
    by simp
  have i: "(int (length ?ext) - 1) mod 3 = 0"
    by (simp add: cps m)
  have r: "3 * m + 3 < length ?ext"
    by (simp add: cps m)
  have e: "?ext = front @ [?L, ?p1, ?p2, ?p3]"
    by (simp add: cps)
  have n: "?ext ! (3 * m) = ?L" "?ext ! (3 * m + 1) = ?p1"
    "?ext ! (3 * m + 2) = ?p2" "?ext ! (3 * m + 3) = ?p3"
    unfolding e m [symmetric] by (simp_all only: nth_append_length_plus nth_append_length) simp_all
  have g: "get_segment_control_points ?ext (get_num_segments control_points) =
             Inr (?L, ?p1, ?p2, ?p3)"
    by (simp only: k get_segment_in_range [OF r] n)
  show ?thesis
    by (rule exI [of _ ?ext]) (intro conjI a refl l s t i g)
qed

theorem add_segment_appends_witness:
  "(int (length ([(1, 2), (2, 3.5), (3, 3.5), (4, 2)] :: real point list)) - 1) mod 3 = 0 \<and>
   add_segment [(1, 2), (2, 3.5), (3, 3.5), (4, 2)] =
     Inr [(1, 2), (2, 3.5), (3, 3.5), (4, 2), (5, 2.5), (6, 2.5), (7, 2)] \<and>
   get_num_segments [(1, 2), (2, 3.5), (3, 3.5), (4, 2)] = 1 \<and>
   get_num_segments [(1, 2), (2, 3.5), (3, 3.5), (4, 2), (5, 2.5), (6, 2.5), (7, 2)] = 2"
proof -
  have h: "(int (length ([(1, 2), (2, 3.5), (3, 3.5), (4, 2)] :: real point list)) - 1) mod 3 = 0"
    by simp
  have a: "add_segment [(1, 2), (2, 3.5), (3, 3.5), (4, 2)] =
      Inr [(1, 2), (2, 3.5), (3, 3.5), (4, 2), (5, 2.5), (6, 2.5), (7, 2)]"
    by code_simp
  have n: "get_num_segments [(1, 2), (2, 3.5), (3, 3.5), (4, 2)] = 1"
    "get_num_segments [(1, 2), (2, 3.5), (3, 3.5), (4, 2), (5, 2.5), (6, 2.5), (7, 2)] = 2"
    by (simp_all add: get_num_segments_def)
  from add_segment_appends [OF h] obtain extended
    where "add_segment [(1, 2), (2, 3.5), (3, 3.5), (4, 2)] = Inr extended"
      and "length extended = length ([(1, 2), (2, 3.5), (3, 3.5), (4, 2)] :: real point list) + 3"
    by blast
  with a have "length extended = 7"
    by simp
  with h a n show ?thesis
    by blast
qed

text \<open>
  C10, as amended. On at most two control points \<open>decrease_degree\<close> raises nothing:
  it prints one line, returns, and leaves the control points as they were.
\<close>

theorem decrease_degree_at_floor:
  assumes "length control_points \<le> 2"
  shows "decrease_degree control_points =
           Inr (control_points, [''Cannot decrease degree below 1 (minimum 2 control points)''])"
  using assms by (simp add: decrease_degree_def)

theorem decrease_degree_at_floor_witness:
  "length ([(1, 1)] :: real point list) \<le> 2 \<and>
   decrease_degree [(1, 1)] =
     Inr ([(1, 1)], [''Cannot decrease degree below 1 (minimum 2 control points)''])"
  using decrease_degree_at_floor [of "[(1, 1)]"] by simp

text \<open>
  C10 as stated fails on two control points: the call returns normally, with the
  line printed, where the claim has an InvalidOperationError.
\<close>

theorem decrease_degree_two_points_counterexample:
  "length ([(1, 1), (5, 1)] :: real point list) \<le> 2 \<and>
   decrease_degree [(1, 1), (5, 1)] =
     Inr ([(1, 1), (5, 1)], [''Cannot decrease degree below 1 (minimum 2 control points)''])"
  by (simp add: decrease_degree_def)

end
